theory Spec2Isabelle
  imports Main
begin

section \<open>Data model\<close>

text \<open>
  The repository is two Python files: \<^verbatim>\<open>rag_system.py\<close> (class \<^verbatim>\<open>ConsultingRAG\<close>) and
  \<^verbatim>\<open>app.py\<close> (a Streamlit script). Python strings are modelled as \<open>string\<close>: the
  code only concatenates them, joins them and tests them for emptiness, and all three
  commute with the UTF-8 encoding of the text. Console output (\<^verbatim>\<open>print\<close>) is left out.
\<close>

text \<open>A LangChain document: \<^verbatim>\<open>doc.page_content\<close> and its metadata.\<close>

record document =
  page_content :: string
  metadata :: "(string \<times> string) list"

text \<open>
  Exceptions. \<open>ValueError\<close> is the one exception the repository raises itself
  (\<^verbatim>\<open>rag_system.py:69\<close>); \<open>IndexError\<close> is what \<^verbatim>\<open>response.content[0]\<close> raises
  on an empty list; \<open>LibraryError\<close> carries whatever a call into LangChain, Chroma or
  the Anthropic client raised: the code has no handler around any of them, so the
  exception reaches the caller as it is.
\<close>

datatype error =
    ValueError string
  | IndexError
  | LibraryError string

text \<open>The request and the response of \<^verbatim>\<open>anthropic.messages.create\<close>.\<close>

record create_params =
  model :: string
  max_tokens :: int
  messages :: "(string \<times> string) list"

record content_block =
  block_text :: string

record message =
  content :: "content_block list"

text \<open>
  Every call that leaves the repository's code is recorded, in order, so that "no
  retrieval happened" and "the service was called once" are statements about a list.
\<close>

datatype call =
    DirectoryLoad string
  | SplitDocuments nat nat
  | ChromaFromDocuments string string
  | ChromaOpen string string
  | SimilaritySearch string int
  | MessagesCreate create_params

record 'w sys =
  world :: 'w
  calls :: "call list"

text \<open>
  The third-party operations are parameters of the model. Each one reads and may change
  the outside world \<open>'w\<close> (the file system, the network) and either raises or returns.
  \<open>'db\<close> is a Chroma vector store object.
\<close>

record ('w, 'db) env =
  directory_load :: "string \<Rightarrow> 'w \<Rightarrow> (string + document list) \<times> 'w"
  split_documents :: "nat \<Rightarrow> nat \<Rightarrow> document list \<Rightarrow> 'w \<Rightarrow> (string + document list) \<times> 'w"
  from_documents :: "document list \<Rightarrow> string \<Rightarrow> string \<Rightarrow> 'w \<Rightarrow> (string + 'db) \<times> 'w"
  chroma_open :: "string \<Rightarrow> string \<Rightarrow> 'w \<Rightarrow> (string + 'db) \<times> 'w"
  similarity_search :: "'db \<Rightarrow> string \<Rightarrow> int \<Rightarrow> 'w \<Rightarrow> (string + document list) \<times> 'w"
  messages_create :: "create_params \<Rightarrow> 'w \<Rightarrow> (string + message) \<times> 'w"

text \<open>One library call: log it, run it on the world, wrap what it raised.\<close>

definition extern :: "call \<Rightarrow> ('w \<Rightarrow> (string + 'a) \<times> 'w) \<Rightarrow> 'w sys \<Rightarrow> (error + 'a) \<times> 'w sys" where
  "extern c f s =
     (case f (world s) of
        (Inl e, w) \<Rightarrow> (Inl (LibraryError e), s\<lparr>world := w, calls := calls s @ [c]\<rparr>)
      | (Inr v, w) \<Rightarrow> (Inr v, s\<lparr>world := w, calls := calls s @ [c]\<rparr>))"

section \<open>rag_system.py\<close>

record 'db ConsultingRAG =
  knowledge_base_path :: string
  vectordb :: "'db option"
  embeddings :: string

text \<open>\<^verbatim>\<open>__init__\<close>: the embedding function is kept as the name of its model.\<close>

definition ConsultingRAG_init :: "string \<Rightarrow> 'db ConsultingRAG" where
  "ConsultingRAG_init path =
     \<lparr>knowledge_base_path = path, vectordb = None, embeddings = ''all-MiniLM-L6-v2''\<rparr>"

definition persist_directory :: string where
  "persist_directory = ''./chroma_db''"

definition chunk_size :: nat where
  "chunk_size = 1000"

definition chunk_overlap :: nat where
  "chunk_overlap = 200"

text \<open>
  \<^verbatim>\<open>build_knowledge_base\<close>: load, split, embed and persist. \<^verbatim>\<open>self.vectordb\<close> is
  assigned only when \<^verbatim>\<open>Chroma.from_documents\<close> has returned.
\<close>

definition build_knowledge_base ::
  "('w, 'db) env \<Rightarrow> 'db ConsultingRAG \<Rightarrow> 'w sys \<Rightarrow> (error + 'db) \<times> 'db ConsultingRAG \<times> 'w sys" where
  "build_knowledge_base E self s =
     (case extern (DirectoryLoad (knowledge_base_path self))
             (directory_load E (knowledge_base_path self)) s of
        (Inl e, s1) \<Rightarrow> (Inl e, self, s1)
      | (Inr documents, s1) \<Rightarrow>
          (case extern (SplitDocuments chunk_size chunk_overlap)
                  (split_documents E chunk_size chunk_overlap documents) s1 of
             (Inl e, s2) \<Rightarrow> (Inl e, self, s2)
           | (Inr chunks, s2) \<Rightarrow>
               (case extern (ChromaFromDocuments (embeddings self) persist_directory)
                       (from_documents E chunks (embeddings self) persist_directory) s2 of
                  (Inl e, s3) \<Rightarrow> (Inl e, self, s3)
                | (Inr db, s3) \<Rightarrow> (Inr db, self\<lparr>vectordb := Some db\<rparr>, s3))))"

text \<open>\<^verbatim>\<open>load_existing_db\<close>: open the persisted store; no check of its own.\<close>

definition load_existing_db ::
  "('w, 'db) env \<Rightarrow> 'db ConsultingRAG \<Rightarrow> 'w sys \<Rightarrow> (error + 'db) \<times> 'db ConsultingRAG \<times> 'w sys" where
  "load_existing_db E self s =
     (case extern (ChromaOpen persist_directory (embeddings self))
             (chroma_open E persist_directory (embeddings self)) s of
        (Inl e, s1) \<Rightarrow> (Inl e, self, s1)
      | (Inr db, s1) \<Rightarrow> (Inr db, self\<lparr>vectordb := Some db\<rparr>, s1))"

text \<open>Python's \<^verbatim>\<open>sep.join(xs)\<close>.\<close>

fun join_str :: "string \<Rightarrow> string list \<Rightarrow> string" where
  "join_str sep [] = []"
| "join_str sep [x] = x"
| "join_str sep (x # y # ys) = x @ sep @ join_str sep (y # ys)"

definition separator :: string where
  "separator = ''\<newline>\<newline>---\<newline>\<newline>''"

text \<open>Line 72: the context string made of the retrieved documents.\<close>

definition frameworks_context :: "document list \<Rightarrow> string" where
  "frameworks_context relevant_docs = join_str separator (map page_content relevant_docs)"

definition not_initialized :: error where
  "not_initialized = ValueError ''Vector database not initialized.''"

text \<open>\<^verbatim>\<open>get_relevant_frameworks\<close>: the guard first, then the search, then the join.\<close>

definition get_relevant_frameworks ::
  "('w, 'db) env \<Rightarrow> 'db ConsultingRAG \<Rightarrow> string \<Rightarrow> int \<Rightarrow> 'w sys \<Rightarrow> (error + string) \<times> 'w sys" where
  "get_relevant_frameworks E self query k s =
     (case vectordb self of
        None \<Rightarrow> (Inl not_initialized, s)
      | Some db \<Rightarrow>
          (case extern (SimilaritySearch query k) (similarity_search E db query k) s of
             (Inl e, s1) \<Rightarrow> (Inl e, s1)
           | (Inr relevant_docs, s1) \<Rightarrow> (Inr (frameworks_context relevant_docs), s1)))"

text \<open>
  The operations of one \<^verbatim>\<open>ConsultingRAG\<close> instance, for statements about what
  happens to it over time. A method that raises leaves the instance as the method left
  it; the result of each call is dropped here.
\<close>

datatype rag_op = Build | Load | Query string int

fun rag_step :: "('w, 'db) env \<Rightarrow> rag_op \<Rightarrow> 'db ConsultingRAG \<times> 'w sys \<Rightarrow> 'db ConsultingRAG \<times> 'w sys" where
  "rag_step E Build (self, s) = snd (build_knowledge_base E self s)"
| "rag_step E Load (self, s) = snd (load_existing_db E self s)"
| "rag_step E (Query query k) (self, s) = (self, snd (get_relevant_frameworks E self query k s))"

fun rag_run :: "('w, 'db) env \<Rightarrow> rag_op list \<Rightarrow> 'db ConsultingRAG \<times> 'w sys \<Rightarrow> 'db ConsultingRAG \<times> 'w sys" where
  "rag_run E [] st = st"
| "rag_run E (op # ops) st = rag_run E ops (rag_step E op st)"

section \<open>app.py\<close>

text \<open>
  \<^verbatim>\<open>load_rag_system\<close>: try to load, and build on any exception (a bare
  \<^verbatim>\<open>except\<close>).
\<close>

definition load_rag_system :: "('w, 'db) env \<Rightarrow> 'w sys \<Rightarrow> (error + 'db ConsultingRAG) \<times> 'w sys" where
  "load_rag_system E s =
     (case load_existing_db E (ConsultingRAG_init ''./knowledge_base'') s of
        (Inr db, rag, s1) \<Rightarrow> (Inr rag, s1)
      | (Inl e, rag, s1) \<Rightarrow>
          (case build_knowledge_base E rag s1 of
             (Inl e', rag', s2) \<Rightarrow> (Inl e', s2)
           | (Inr db, rag', s2) \<Rightarrow> (Inr rag', s2)))"

text \<open>The four widgets of the form, as the strings they return.\<close>

record form =
  engagement_type :: string
  industry :: string
  challenge :: string
  constraints :: string

text \<open>\<^verbatim>\<open>st.session_state.get(key, "")\<close>, the value of an untouched text widget.\<close>

definition session_get :: "(string \<rightharpoonup> string) \<Rightarrow> string \<Rightarrow> string" where
  "session_get session_state key = (case session_state key of None \<Rightarrow> [] | Some v \<Rightarrow> v)"

text \<open>Line 157: \<^verbatim>\<open>f"{engagement_type}: {industry} - {challenge}"\<close>.\<close>

definition build_query :: "'a form_scheme \<Rightarrow> string" where
  "build_query f = engagement_type f @ '': '' @ industry f @ '' - '' @ challenge f"

definition system_prompt :: string where
  "system_prompt =
     ''You are a senior Strategy & Operations consultant. \<newline>'' @
     ''\<newline>'' @
     ''Your task is to analyze business challenges and provide actionable recommendations using proven consulting frameworks.\<newline>'' @
     ''\<newline>'' @
     ''Key principles:\<newline>'' @
     ''- Data-driven and realistic\<newline>'' @
     ''- Break complex problems into actionable steps\<newline>'' @
     ''- Balance technical and business perspectives\<newline>'' @
     ''- Provide specific metrics and timelines\<newline>'' @
     ''- Professional but clear communication\<newline>'' @
     ''\<newline>'' @
     ''Output a comprehensive strategy brief with these sections:\<newline>'' @
     ''1. EXECUTIVE SUMMARY (3-4 key bullets)\<newline>'' @
     ''2. CURRENT STATE ASSESSMENT\<newline>'' @
     ''3. GAP ANALYSIS\<newline>'' @
     ''4. PRIORITIZED RECOMMENDATIONS (with effort/impact scores)\<newline>'' @
     ''5. IMPLEMENTATION ROADMAP (phased timeline)\<newline>'' @
     ''6. SUCCESS METRICS\<newline>'' @
     ''7. RISK REGISTER\<newline>'' @
     ''\<newline>'' @
     ''Use concrete examples and specific numbers where possible.''"

text \<open>Lines 185-196; an empty \<^verbatim>\<open>constraints\<close> is falsy and prints as "None specified".\<close>

definition user_prompt :: "'a form_scheme \<Rightarrow> string \<Rightarrow> string" where
  "user_prompt f relevant_frameworks =
     ''\<newline>RELEVANT CONSULTING FRAMEWORKS:\<newline>'' @
     relevant_frameworks @ ''\<newline>'' @
     ''\<newline>'' @
     ''CLIENT CHALLENGE:\<newline>'' @
     ''Engagement Type: '' @ engagement_type f @ ''\<newline>'' @
     ''Industry: '' @ industry f @ ''\<newline>'' @
     ''Challenge: '' @ challenge f @ ''\<newline>'' @
     ''Constraints: '' @ (if constraints f \<noteq> [] then constraints f else ''None specified'') @ ''\<newline>'' @
     ''\<newline>'' @
     ''Using the frameworks above, generate a comprehensive strategy brief for this challenge.\<newline>''"

text \<open>Line 204: \<^verbatim>\<open>f"{system_prompt}\n\n{user_prompt}"\<close>.\<close>

definition message_content :: "'a form_scheme \<Rightarrow> string \<Rightarrow> string" where
  "message_content f relevant_frameworks =
     system_prompt @ ''\<newline>\<newline>'' @ user_prompt f relevant_frameworks"

text \<open>Lines 200-206: the keyword arguments of \<^verbatim>\<open>anthropic.messages.create\<close>.\<close>

definition create_request :: "string \<Rightarrow> create_params" where
  "create_request prompt =
     \<lparr>model = ''claude-sonnet-4-20250514'', max_tokens = 4000, messages = [(''user'', prompt)]\<rparr>"

text \<open>Lines 200-209: one call, then \<^verbatim>\<open>response.content[0].text\<close>.\<close>

definition generate :: "('w, 'db) env \<Rightarrow> string \<Rightarrow> 'w sys \<Rightarrow> (error + string) \<times> 'w sys" where
  "generate E prompt s =
     (case extern (MessagesCreate (create_request prompt))
             (messages_create E (create_request prompt)) s of
        (Inl e, s1) \<Rightarrow> (Inl e, s1)
      | (Inr response, s1) \<Rightarrow>
          (case content response of
             [] \<Rightarrow> (Inl IndexError, s1)
           | b # _ \<Rightarrow> (Inr (block_text b), s1)))"

text \<open>Lines 157-160: the retrieval of one request, with \<^verbatim>\<open>k=3\<close>.\<close>

definition retrieve :: "('w, 'db) env \<Rightarrow> 'db ConsultingRAG \<Rightarrow> 'a form_scheme \<Rightarrow> 'w sys \<Rightarrow> (error + string) \<times> 'w sys" where
  "retrieve E rag f s = get_relevant_frameworks E rag (build_query f) 3 s"

text \<open>
  What a press of the button ends in: the \<^verbatim>\<open>st.error\<close> message, an exception that
  left the script, or the brief that is displayed and offered for download.
\<close>

datatype outcome = Rejected string | Raised error | Displayed string

text \<open>Lines 151-223, the body of \<^verbatim>\<open>if st.button(...)\<close>.\<close>

definition on_generate_click ::
  "('w, 'db) env \<Rightarrow> 'db ConsultingRAG \<Rightarrow> 'a form_scheme \<Rightarrow> 'w sys \<Rightarrow> outcome \<times> 'w sys" where
  "on_generate_click E rag f s =
     (if challenge f = [] then
        (Rejected ''Please describe the challenge before generating a brief.'', s)
      else
        (case retrieve E rag f s of
           (Inl e, s1) \<Rightarrow> (Raised e, s1)
         | (Inr relevant_frameworks, s1) \<Rightarrow>
             (case generate E (message_content f relevant_frameworks) s1 of
                (Inl e, s2) \<Rightarrow> (Raised e, s2)
              | (Inr strategy_brief, s2) \<Rightarrow> (Displayed strategy_brief, s2))))"

section \<open>A stand-in environment\<close>

text \<open>
  A small concrete environment on which the theorems below are instantiated. Its world
  is what is stored at the persist directory, its vector store is the list of chunks, and
  its search returns the first \<open>k\<close> of them. The theorems themselves hold for every
  environment.
\<close>

definition demo_documents :: "document list" where
  "demo_documents =
     [\<lparr>page_content = ''Gap analysis'', metadata = [(''source'', ''gap.txt'')]\<rparr>,
      \<lparr>page_content = ''RACI matrix'', metadata = [(''source'', ''raci.txt'')]\<rparr>,
      \<lparr>page_content = ''M&A playbook'', metadata = [(''source'', ''ma.txt'')]\<rparr>]"

definition demo_env :: "(document list option, document list) env" where
  "demo_env =
     \<lparr>directory_load = (\<lambda>path w. (Inr demo_documents, w)),
      split_documents = (\<lambda>size overlap docs w. (Inr docs, w)),
      from_documents = (\<lambda>chunks emb dir w. (Inr chunks, Some chunks)),
      chroma_open = (\<lambda>dir emb w.
         case w of None \<Rightarrow> (Inl ''no collection'', w) | Some chunks \<Rightarrow> (Inr chunks, w)),
      similarity_search = (\<lambda>db query k w. (Inr (take (nat k) db), w)),
      messages_create = (\<lambda>params w.
         (Inr \<lparr>content = [\<lparr>block_text = ''BRIEF''\<rparr>]\<rparr>, w))\<rparr>"

definition failing_service_env :: "(document list option, document list) env" where
  "failing_service_env = demo_env\<lparr>messages_create := (\<lambda>params w. (Inl ''rate limited'', w))\<rparr>"

definition empty_content_env :: "(document list option, document list) env" where
  "empty_content_env = demo_env\<lparr>messages_create := (\<lambda>params w. (Inr \<lparr>content = []\<rparr>, w))\<rparr>"

definition demo_sys :: "document list option sys" where
  "demo_sys = \<lparr>world = None, calls = []\<rparr>"

definition demo_rag :: "document list ConsultingRAG" where
  "demo_rag = (ConsultingRAG_init ''./knowledge_base'')\<lparr>vectordb := Some demo_documents\<rparr>"

definition demo_form :: form where
  "demo_form =
     \<lparr>engagement_type = ''M&A Integration'', industry = ''Technology / SaaS'',
      challenge = ''Two companies recently merged.'', constraints = ''Limited budget''\<rparr>"

definition demo_built_sys :: "document list option sys" where
  "demo_built_sys =
     \<lparr>world = Some demo_documents,
      calls = [DirectoryLoad ''./knowledge_base'', SplitDocuments 1000 200,
               ChromaFromDocuments ''all-MiniLM-L6-v2'' ''./chroma_db'']\<rparr>"

section \<open>Library calls\<close>

lemma extern_calls: "calls (snd (extern c f s)) = calls s @ [c]"
  by (simp add: extern_def split: prod.splits sum.splits)

lemma extern_raises:
  "f (world s) = (Inl e, w) \<Longrightarrow>
     extern c f s = (Inl (LibraryError e), s\<lparr>world := w, calls := calls s @ [c]\<rparr>)"
  by (simp add: extern_def)

lemma extern_returns:
  "f (world s) = (Inr v, w) \<Longrightarrow>
     extern c f s = (Inr v, s\<lparr>world := w, calls := calls s @ [c]\<rparr>)"
  by (simp add: extern_def)

section \<open>What build and load do on their own\<close>

text \<open>
  \<^verbatim>\<open>load_existing_db\<close> is one call of the Chroma constructor on the fixed directory:
  what the constructor raises is raised, what it returns becomes \<^verbatim>\<open>self.vectordb\<close>.
  Nothing is loaded, split or embedded by the method itself.
\<close>

lemma load_existing_db_raises:
  "chroma_open E ''./chroma_db'' (embeddings self) (world s) = (Inl e, w) \<Longrightarrow>
     load_existing_db E self s
       = (Inl (LibraryError e), self,
          s\<lparr>world := w, calls := calls s @ [ChromaOpen ''./chroma_db'' (embeddings self)]\<rparr>)"
  by (simp add: load_existing_db_def persist_directory_def extern_raises)

lemma load_existing_db_returns:
  "chroma_open E ''./chroma_db'' (embeddings self) (world s) = (Inr db, w) \<Longrightarrow>
     load_existing_db E self s
       = (Inr db, self\<lparr>vectordb := Some db\<rparr>,
          s\<lparr>world := w, calls := calls s @ [ChromaOpen ''./chroma_db'' (embeddings self)]\<rparr>)"
  by (simp add: load_existing_db_def persist_directory_def extern_returns)

text \<open>
  \<^verbatim>\<open>build_knowledge_base\<close> stops at the loader's exception, and otherwise hands the
  loaded documents to the splitter with the sizes 1000 and 200.
\<close>

lemma build_knowledge_base_load_raises:
  "directory_load E (knowledge_base_path self) (world s) = (Inl e, w) \<Longrightarrow>
     build_knowledge_base E self s
       = (Inl (LibraryError e), self,
          s\<lparr>world := w, calls := calls s @ [DirectoryLoad (knowledge_base_path self)]\<rparr>)"
  by (simp add: build_knowledge_base_def extern_raises)

lemma build_knowledge_base_calls_prefix:
  "directory_load E (knowledge_base_path self) (world s) = (Inr documents, w) \<Longrightarrow>
     take (length (calls s) + 2) (calls (snd (snd (build_knowledge_base E self s))))
       = calls s @ [DirectoryLoad (knowledge_base_path self), SplitDocuments 1000 200]"
  by (simp add: build_knowledge_base_def extern_def chunk_size_def chunk_overlap_def
        split: prod.splits sum.splits)

section \<open>The initialisation guard\<close>

lemma build_keeps_vectordb:
  "vectordb self \<noteq> None \<Longrightarrow> vectordb (fst (snd (build_knowledge_base E self s))) \<noteq> None"
  by (simp add: build_knowledge_base_def split: prod.splits sum.splits)

lemma load_keeps_vectordb:
  "vectordb self \<noteq> None \<Longrightarrow> vectordb (fst (snd (load_existing_db E self s))) \<noteq> None"
  by (simp add: load_existing_db_def split: prod.splits sum.splits)

lemma build_success_sets_vectordb:
  "build_knowledge_base E self s = (Inr db, self', s') \<Longrightarrow> vectordb self' = Some db"
  by (auto simp: build_knowledge_base_def split: prod.splits sum.splits)

lemma load_success_sets_vectordb:
  "load_existing_db E self s = (Inr db, self', s') \<Longrightarrow> vectordb self' = Some db"
  by (auto simp: load_existing_db_def split: prod.splits sum.splits)

lemma rag_step_keeps_vectordb:
  "vectordb self \<noteq> None \<Longrightarrow> vectordb (fst (rag_step E op (self, s))) \<noteq> None"
proof (cases op)
  case Build
  then show "vectordb self \<noteq> None \<Longrightarrow> ?thesis"
    using build_keeps_vectordb [of self E s] by simp
next
  case Load
  then show "vectordb self \<noteq> None \<Longrightarrow> ?thesis"
    using load_keeps_vectordb [of self E s] by simp
next
  case (Query q k)
  then show "vectordb self \<noteq> None \<Longrightarrow> ?thesis" by simp
qed

lemma rag_run_keeps_vectordb:
  "vectordb (fst st) \<noteq> None \<Longrightarrow> vectordb (fst (rag_run E ops st)) \<noteq> None"
proof (induction ops arbitrary: st)
  case Nil
  then show ?case by simp
next
  case (Cons op ops)
  obtain self s where st: "st = (self, s)" by (cases st)
  with Cons.prems have "vectordb (fst (rag_step E op st)) \<noteq> None"
    using rag_step_keeps_vectordb [of self E op s] by simp
  then show ?case using Cons.IH by simp
qed

lemma guard_passes:
  "vectordb self \<noteq> None \<Longrightarrow>
     fst (get_relevant_frameworks E self query k s) \<noteq> Inl not_initialized"
  by (auto simp: get_relevant_frameworks_def extern_def not_initialized_def
        split: prod.splits sum.splits)

text \<open>The instance the application works with has passed the assignment.\<close>

lemma load_rag_system_initialized:
  "load_rag_system E s = (Inr rag, s') \<Longrightarrow> vectordb rag \<noteq> None"
  by (auto simp: load_rag_system_def split: prod.splits sum.splits
        dest: load_success_sets_vectordb build_success_sets_vectordb)

text \<open>
  C2. A handle that was only constructed, never built and never loaded, answers every
  query text and every \<open>k\<close> with the error of the guard
  (\<^verbatim>\<open>ValueError("Vector database not initialized.")\<close>, the spec's NotReadyError), and the
  system is left as it was: no library call is logged and the world is untouched,
  whatever the vector store would have answered.
\<close>

theorem query_before_build_fails:
  "get_relevant_frameworks E (ConsultingRAG_init path) query k s
     = (Inl (ValueError ''Vector database not initialized.''), s)"
  by (simp add: get_relevant_frameworks_def ConsultingRAG_init_def not_initialized_def)

text \<open>The same on the stand-in environment, for the query of the spec's scenario.\<close>

theorem query_before_build_fails_witness:
  "get_relevant_frameworks demo_env (ConsultingRAG_init ''./knowledge_base'')
       ''post-merger integration'' 3 demo_sys
     = (Inl (ValueError ''Vector database not initialized.''), demo_sys)"
  by (rule query_before_build_fails)

text \<open>
  C9. Once \<^verbatim>\<open>build_knowledge_base\<close> or \<^verbatim>\<open>load_existing_db\<close> has returned
  successfully on an instance, its \<^verbatim>\<open>vectordb\<close> field holds the returned store, it is
  still not \<^verbatim>\<open>None\<close> after any further sequence of builds, loads and queries (failed
  ones included), and a query made then does not end in the not-initialised error, for
  every query text and every \<open>k\<close>.
\<close>

theorem initialized_stays_initialized:
  assumes "build_knowledge_base E self s = (Inr db, self1, s1)
             \<or> load_existing_db E self s = (Inr db, self1, s1)"
    and "rag_run E ops (self1, s1) = (self2, s2)"
  shows "vectordb self1 = Some db \<and> vectordb self2 \<noteq> None
           \<and> fst (get_relevant_frameworks E self2 query k s2)
               \<noteq> Inl (ValueError ''Vector database not initialized.'')"
proof -
  from assms(1) have 1: "vectordb self1 = Some db"
  proof
    assume "build_knowledge_base E self s = (Inr db, self1, s1)"
    then show ?thesis by (rule build_success_sets_vectordb)
  next
    assume "load_existing_db E self s = (Inr db, self1, s1)"
    then show ?thesis by (rule load_success_sets_vectordb)
  qed
  then have "vectordb (fst (rag_run E ops (self1, s1))) \<noteq> None"
    using rag_run_keeps_vectordb [of "(self1, s1)" E ops] by simp
  with assms(2) have 2: "vectordb self2 \<noteq> None" by simp
  from 2 have "fst (get_relevant_frameworks E self2 query k s2) \<noteq> Inl not_initialized"
    by (rule guard_passes)
  with 1 2 show ?thesis by (simp add: not_initialized_def)
qed

text \<open>
  An instance: a build on the stand-in environment succeeds, and after a query, a load
  and a second build the guard still lets a query through.
\<close>

theorem initialized_stays_initialized_witness:
  "build_knowledge_base demo_env (ConsultingRAG_init ''./knowledge_base'') demo_sys
     = (Inr demo_documents, demo_rag, demo_built_sys)
   \<and> vectordb (fst (rag_run demo_env [Query ''merger'' 1, Load, Build]
                      (demo_rag, demo_built_sys))) \<noteq> None
   \<and> fst (get_relevant_frameworks demo_env
         (fst (rag_run demo_env [Query ''merger'' 1, Load, Build] (demo_rag, demo_built_sys)))
         ''post-merger integration'' 2
         (snd (rag_run demo_env [Query ''merger'' 1, Load, Build] (demo_rag, demo_built_sys))))
       \<noteq> Inl (ValueError ''Vector database not initialized.'')"
proof -
  let ?ops = "[Query ''merger'' 1, Load, Build]"
  have b: "build_knowledge_base demo_env (ConsultingRAG_init ''./knowledge_base'') demo_sys
             = (Inr demo_documents, demo_rag, demo_built_sys)"
    by (simp add: build_knowledge_base_def extern_def demo_env_def demo_sys_def demo_rag_def
          demo_built_sys_def ConsultingRAG_init_def chunk_size_def chunk_overlap_def
          persist_directory_def)
  have r: "rag_run demo_env ?ops (demo_rag, demo_built_sys)
             = (fst (rag_run demo_env ?ops (demo_rag, demo_built_sys)),
                snd (rag_run demo_env ?ops (demo_rag, demo_built_sys)))"
    by simp
  show ?thesis
    using b initialized_stays_initialized [OF disjI1 [OF b] r, of "''post-merger integration''" 2]
    by simp
qed

section \<open>The request handler\<close>

lemma generate_calls:
  "calls (snd (generate E prompt s)) = calls s @ [MessagesCreate (create_request prompt)]"
  by (simp add: generate_def extern_def split: prod.splits sum.splits list.splits)

lemma retrieve_found:
  assumes "vectordb rag = Some db"
    and "similarity_search E db (build_query f) 3 (world s) = (Inr docs, w)"
  shows "retrieve E rag f s
           = (Inr (frameworks_context docs),
              s\<lparr>world := w, calls := calls s @ [SimilaritySearch (build_query f) 3]\<rparr>)"
  using assms by (simp add: retrieve_def get_relevant_frameworks_def extern_returns)

text \<open>
  C8. A press of the button with an empty challenge ends in the \<^verbatim>\<open>st.error\<close>
  message and leaves the system as it was: no search, no prompt, no call of the
  generation service. A challenge that is missing from the session state reaches the
  handler as the empty default of the widget, with the same result.
\<close>

theorem empty_challenge_rejected:
  "(challenge f = [] \<longrightarrow>
      on_generate_click E rag f s
        = (Rejected ''Please describe the challenge before generating a brief.'', s))
   \<and> (session_state ''challenge'' = None \<longrightarrow>
        on_generate_click E rag (f\<lparr>challenge := session_get session_state ''challenge''\<rparr>) s
          = (Rejected ''Please describe the challenge before generating a brief.'', s))"
  by (simp add: on_generate_click_def session_get_def)

text \<open>An instance: the sample form with its challenge cleared, and with no session entry.\<close>

theorem empty_challenge_rejected_witness:
  "challenge (demo_form\<lparr>challenge := []\<rparr>) = []
   \<and> on_generate_click demo_env demo_rag (demo_form\<lparr>challenge := []\<rparr>) demo_sys
       = (Rejected ''Please describe the challenge before generating a brief.'', demo_sys)
   \<and> Map.empty ''challenge'' = (None :: string option)
   \<and> on_generate_click demo_env demo_rag
         (demo_form\<lparr>challenge := session_get Map.empty ''challenge''\<rparr>) demo_sys
       = (Rejected ''Please describe the challenge before generating a brief.'', demo_sys)"
  using empty_challenge_rejected
          [of "demo_form\<lparr>challenge := []\<rparr>" demo_env demo_rag demo_sys Map.empty]
  by simp

text \<open>
  C10. Two requests that agree on engagement type, industry and challenge give the same
  retrieval query string and the same retrieval (result, logged search and world), on
  the same instance and system, whatever their constraints are: the constraints enter
  the prompt only.
\<close>

theorem constraints_not_in_retrieval:
  assumes "engagement_type f = engagement_type f'"
    and "industry f = industry f'"
    and "challenge f = challenge f'"
  shows "build_query f = build_query f' \<and> retrieve E rag f s = retrieve E rag f' s"
  using assms by (simp add: build_query_def retrieve_def)

text \<open>
  An instance: the sample form with and without its constraints; the retrieval is the
  same and the prompts differ.
\<close>

theorem constraints_not_in_retrieval_witness:
  "constraints demo_form \<noteq> constraints (demo_form\<lparr>constraints := []\<rparr>)
   \<and> build_query demo_form = build_query (demo_form\<lparr>constraints := []\<rparr>)
   \<and> retrieve demo_env demo_rag demo_form demo_sys
       = retrieve demo_env demo_rag (demo_form\<lparr>constraints := []\<rparr>) demo_sys
   \<and> message_content demo_form ''X'' \<noteq> message_content (demo_form\<lparr>constraints := []\<rparr>) ''X''"
proof -
  have d: "constraints demo_form \<noteq> constraints (demo_form\<lparr>constraints := []\<rparr>)"
    by (simp add: demo_form_def)
  have m: "message_content demo_form ''X'' \<noteq> message_content (demo_form\<lparr>constraints := []\<rparr>) ''X''"
    by (simp add: message_content_def user_prompt_def demo_form_def)
  show ?thesis
    using d m constraints_not_in_retrieval
                [of demo_form "demo_form\<lparr>constraints := []\<rparr>" demo_env demo_rag demo_sys]
    by simp
qed

section \<open>The prompt\<close>

text \<open>
  The join, said without the function: nothing for no text, and otherwise the first text
  followed by every further text with the separator in front of it.
\<close>

lemma join_str_concat: "join_str sep (x # xs) = x @ concat (map ((@) sep) xs)"
  by (induction xs arbitrary: x) simp_all

lemma frameworks_context_concat:
  "frameworks_context docs
     = (case docs of
          [] \<Rightarrow> []
        | d # ds \<Rightarrow>
            page_content d
            @ concat (map (\<lambda>x. ''\<newline>\<newline>---\<newline>\<newline>'' @ page_content x) ds))"
  by (cases docs) (simp_all add: frameworks_context_def separator_def join_str_concat comp_def)

text \<open>
  C4. For every form and every list of retrieved documents the prompt is the fixed
  template: the system prompt, the heading, the page contents of all the documents in
  their order, each but the first with the one separator \<^verbatim>\<open>"\n\n---\n\n"\<close> in front
  of it, and the four fields (an empty constraints field printed as "None specified").
  Composing it calls nothing: in a press of the button whose search returns \<open>docs\<close>, the
  library calls are the search and then the generation request carrying exactly this
  prompt, with nothing in between.
\<close>

theorem compose_fixed_template:
  "message_content f (frameworks_context docs)
     = system_prompt @ ''\<newline>\<newline>\<newline>RELEVANT CONSULTING FRAMEWORKS:\<newline>''
       @ (case docs of
            [] \<Rightarrow> []
          | d # ds \<Rightarrow>
              page_content d
              @ concat (map (\<lambda>x. ''\<newline>\<newline>---\<newline>\<newline>'' @ page_content x) ds))
       @ ''\<newline>\<newline>CLIENT CHALLENGE:\<newline>Engagement Type: '' @ engagement_type f
       @ ''\<newline>Industry: '' @ industry f
       @ ''\<newline>Challenge: '' @ challenge f
       @ ''\<newline>Constraints: '' @ (if constraints f = [] then ''None specified'' else constraints f)
       @ ''\<newline>\<newline>Using the frameworks above, generate a comprehensive strategy brief for this challenge.\<newline>''
   \<and> (\<forall>db w. challenge f \<noteq> [] \<and> vectordb rag = Some db
          \<and> similarity_search E db (build_query f) 3 (world s) = (Inr docs, w) \<longrightarrow>
        calls (snd (on_generate_click E rag f s))
          = calls s @ [SimilaritySearch (build_query f) 3,
                       MessagesCreate (create_request (message_content f (frameworks_context docs)))])"
proof (intro conjI allI impI)
  show "message_content f (frameworks_context docs)
     = system_prompt @ ''\<newline>\<newline>\<newline>RELEVANT CONSULTING FRAMEWORKS:\<newline>''
       @ (case docs of
            [] \<Rightarrow> []
          | d # ds \<Rightarrow>
              page_content d
              @ concat (map (\<lambda>x. ''\<newline>\<newline>---\<newline>\<newline>'' @ page_content x) ds))
       @ ''\<newline>\<newline>CLIENT CHALLENGE:\<newline>Engagement Type: '' @ engagement_type f
       @ ''\<newline>Industry: '' @ industry f
       @ ''\<newline>Challenge: '' @ challenge f
       @ ''\<newline>Constraints: '' @ (if constraints f = [] then ''None specified'' else constraints f)
       @ ''\<newline>\<newline>Using the frameworks above, generate a comprehensive strategy brief for this challenge.\<newline>''"
    unfolding frameworks_context_concat [symmetric]
    by (simp add: message_content_def user_prompt_def)
next
  fix db w
  assume a: "challenge f \<noteq> [] \<and> vectordb rag = Some db
          \<and> similarity_search E db (build_query f) 3 (world s) = (Inr docs, w)"
  let ?s1 = "s\<lparr>world := w, calls := calls s @ [SimilaritySearch (build_query f) 3]\<rparr>"
  let ?p = "message_content f (frameworks_context docs)"
  from a have r: "retrieve E rag f s = (Inr (frameworks_context docs), ?s1)"
    by (simp add: retrieve_found)
  have "calls (snd (generate E ?p ?s1)) = calls ?s1 @ [MessagesCreate (create_request ?p)]"
    by (rule generate_calls)
  with a r show "calls (snd (on_generate_click E rag f s))
          = calls s @ [SimilaritySearch (build_query f) 3, MessagesCreate (create_request ?p)]"
    by (auto simp: on_generate_click_def split: prod.splits sum.splits)
qed

text \<open>
  An instance: the sample form over the three stand-in documents, as many as the
  application retrieves; all three texts are in the prompt, with two separators.
\<close>

theorem compose_fixed_template_witness:
  "challenge demo_form \<noteq> [] \<and> vectordb demo_rag = Some demo_documents
   \<and> similarity_search demo_env demo_documents (build_query demo_form) 3 (world demo_sys)
       = (Inr demo_documents, None)
   \<and> message_content demo_form (frameworks_context demo_documents)
       = system_prompt @ ''\<newline>\<newline>\<newline>RELEVANT CONSULTING FRAMEWORKS:\<newline>''
         @ ''Gap analysis\<newline>\<newline>---\<newline>\<newline>RACI matrix\<newline>\<newline>---\<newline>\<newline>M&A playbook''
         @ ''\<newline>\<newline>CLIENT CHALLENGE:\<newline>Engagement Type: M&A Integration''
         @ ''\<newline>Industry: Technology / SaaS''
         @ ''\<newline>Challenge: Two companies recently merged.''
         @ ''\<newline>Constraints: Limited budget''
         @ ''\<newline>\<newline>Using the frameworks above, generate a comprehensive strategy brief for this challenge.\<newline>''
   \<and> calls (snd (on_generate_click demo_env demo_rag demo_form demo_sys))
       = [SimilaritySearch ''M&A Integration: Technology / SaaS - Two companies recently merged.'' 3,
          MessagesCreate (create_request (message_content demo_form (frameworks_context demo_documents)))]"
proof -
  have h: "challenge demo_form \<noteq> [] \<and> vectordb demo_rag = Some demo_documents
           \<and> similarity_search demo_env demo_documents (build_query demo_form) 3 (world demo_sys)
               = (Inr demo_documents, None)"
    by (simp add: demo_form_def demo_rag_def demo_env_def demo_documents_def demo_sys_def)
  have q: "build_query demo_form
             = ''M&A Integration: Technology / SaaS - Two companies recently merged.''"
    by (simp add: build_query_def demo_form_def)
  have c: "calls demo_sys = []"
    by (simp add: demo_sys_def)
  have j: "(case demo_documents of
              [] \<Rightarrow> []
            | d # ds \<Rightarrow>
                page_content d
                @ concat (map (\<lambda>x. ''\<newline>\<newline>---\<newline>\<newline>'' @ page_content x) ds))
             = ''Gap analysis\<newline>\<newline>---\<newline>\<newline>RACI matrix\<newline>\<newline>---\<newline>\<newline>M&A playbook''"
    by (simp add: demo_documents_def)
  have f: "engagement_type demo_form = ''M&A Integration''
           \<and> industry demo_form = ''Technology / SaaS''
           \<and> challenge demo_form = ''Two companies recently merged.''
           \<and> constraints demo_form = ''Limited budget''"
    by (simp add: demo_form_def)
  note t = compose_fixed_template [where f = demo_form and docs = demo_documents
             and rag = demo_rag and E = demo_env and s = demo_sys]
  from t have t1: "message_content demo_form (frameworks_context demo_documents)
       = system_prompt @ ''\<newline>\<newline>\<newline>RELEVANT CONSULTING FRAMEWORKS:\<newline>''
         @ ''Gap analysis\<newline>\<newline>---\<newline>\<newline>RACI matrix\<newline>\<newline>---\<newline>\<newline>M&A playbook''
         @ ''\<newline>\<newline>CLIENT CHALLENGE:\<newline>Engagement Type: M&A Integration''
         @ ''\<newline>Industry: Technology / SaaS''
         @ ''\<newline>Challenge: Two companies recently merged.''
         @ ''\<newline>Constraints: Limited budget''
         @ ''\<newline>\<newline>Using the frameworks above, generate a comprehensive strategy brief for this challenge.\<newline>''"
    unfolding j using f by simp
  from t h have t2: "calls (snd (on_generate_click demo_env demo_rag demo_form demo_sys))
       = calls demo_sys @ [SimilaritySearch (build_query demo_form) 3,
          MessagesCreate (create_request (message_content demo_form (frameworks_context demo_documents)))]"
    by blast
  from h t1 t2 show ?thesis unfolding q c by simp
qed

text \<open>
  C5. The prompt is a function of the four fields and of the texts of the retrieved
  documents and of nothing else: two compositions with equal fields and equal chunk
  texts (the documents themselves may differ in their metadata) give the same string,
  character by character.
\<close>

theorem compose_deterministic:
  assumes "engagement_type f = engagement_type f'"
    and "industry f = industry f'"
    and "challenge f = challenge f'"
    and "constraints f = constraints f'"
    and "map page_content docs = map page_content docs'"
  shows "message_content f (frameworks_context docs) = message_content f' (frameworks_context docs')"
  using assms by (simp add: message_content_def user_prompt_def frameworks_context_def)

text \<open>An instance: the same text retrieved from two different source files.\<close>

theorem compose_deterministic_witness:
  "map page_content [\<lparr>page_content = ''Gap analysis'', metadata = [(''source'', ''a.txt'')]\<rparr>]
     = map page_content [\<lparr>page_content = ''Gap analysis'', metadata = [(''source'', ''b.txt'')]\<rparr>]
   \<and> message_content demo_form
        (frameworks_context [\<lparr>page_content = ''Gap analysis'', metadata = [(''source'', ''a.txt'')]\<rparr>])
     = message_content demo_form
        (frameworks_context [\<lparr>page_content = ''Gap analysis'', metadata = [(''source'', ''b.txt'')]\<rparr>])"
proof -
  have h: "map page_content [\<lparr>page_content = ''Gap analysis'', metadata = [(''source'', ''a.txt'')]\<rparr>]
     = map page_content [\<lparr>page_content = ''Gap analysis'', metadata = [(''source'', ''b.txt'')]\<rparr>]"
    by simp
  show ?thesis
    using h compose_deterministic [OF refl refl refl refl h, of demo_form] by simp
qed

section \<open>The generation call\<close>

text \<open>
  C6, as the code has it. For every prompt, the generation step makes exactly one call
  of the service, with the model \<^verbatim>\<open>claude-sonnet-4-20250514\<close>, 4000 output tokens at
  most and the prompt as the content of the single user message. If the service
  raises, that exception is the result, unchanged, and no second call is made. If it
  answers with at least one content block, the result is the text of the first block,
  unchanged. If it answers with no content block, the result is the \<open>IndexError\<close> of
  \<^verbatim>\<open>response.content[0]\<close>: the answer is not checked before it is indexed.
\<close>

theorem generate_contract:
  "calls (snd (generate E prompt s))
     = calls s @ [MessagesCreate \<lparr>model = ''claude-sonnet-4-20250514'', max_tokens = 4000,
                                 messages = [(''user'', prompt)]\<rparr>]
   \<and> (\<forall>e w. messages_create E (create_request prompt) (world s) = (Inl e, w) \<longrightarrow>
         generate E prompt s
           = (Inl (LibraryError e),
              s\<lparr>world := w, calls := calls s @ [MessagesCreate (create_request prompt)]\<rparr>))
   \<and> (\<forall>b bs w. messages_create E (create_request prompt) (world s)
                  = (Inr \<lparr>content = b # bs\<rparr>, w) \<longrightarrow>
         generate E prompt s
           = (Inr (block_text b),
              s\<lparr>world := w, calls := calls s @ [MessagesCreate (create_request prompt)]\<rparr>))
   \<and> (\<forall>w. messages_create E (create_request prompt) (world s) = (Inr \<lparr>content = []\<rparr>, w) \<longrightarrow>
         generate E prompt s
           = (Inl IndexError,
              s\<lparr>world := w, calls := calls s @ [MessagesCreate (create_request prompt)]\<rparr>))"
proof (intro conjI allI impI)
  show "calls (snd (generate E prompt s))
     = calls s @ [MessagesCreate \<lparr>model = ''claude-sonnet-4-20250514'', max_tokens = 4000,
                                 messages = [(''user'', prompt)]\<rparr>]"
    using generate_calls [of E prompt s] by (simp add: create_request_def)
next
  fix e w
  assume "messages_create E (create_request prompt) (world s) = (Inl e, w)"
  then show "generate E prompt s
           = (Inl (LibraryError e),
              s\<lparr>world := w, calls := calls s @ [MessagesCreate (create_request prompt)]\<rparr>)"
    by (simp add: generate_def extern_raises)
next
  fix b bs w
  assume "messages_create E (create_request prompt) (world s) = (Inr \<lparr>content = b # bs\<rparr>, w)"
  then show "generate E prompt s
           = (Inr (block_text b),
              s\<lparr>world := w, calls := calls s @ [MessagesCreate (create_request prompt)]\<rparr>)"
    by (simp add: generate_def extern_returns)
next
  fix w
  assume "messages_create E (create_request prompt) (world s) = (Inr \<lparr>content = []\<rparr>, w)"
  then show "generate E prompt s
           = (Inl IndexError,
              s\<lparr>world := w, calls := calls s @ [MessagesCreate (create_request prompt)]\<rparr>)"
    by (simp add: generate_def extern_returns)
qed

text \<open>
  An instance: a service that refuses the request, one that answers it, and one that
  answers it with no content block.
\<close>

theorem generate_contract_witness:
  "messages_create failing_service_env (create_request ''PROMPT'') (world demo_sys)
     = (Inl ''rate limited'', None)
   \<and> generate failing_service_env ''PROMPT'' demo_sys
     = (Inl (LibraryError ''rate limited''),
        \<lparr>world = None, calls = [MessagesCreate (create_request ''PROMPT'')]\<rparr>)
   \<and> messages_create demo_env (create_request ''PROMPT'') (world demo_sys)
     = (Inr \<lparr>content = [\<lparr>block_text = ''BRIEF''\<rparr>]\<rparr>, None)
   \<and> generate demo_env ''PROMPT'' demo_sys
     = (Inr ''BRIEF'', \<lparr>world = None, calls = [MessagesCreate (create_request ''PROMPT'')]\<rparr>)
   \<and> messages_create empty_content_env (create_request ''PROMPT'') (world demo_sys)
     = (Inr \<lparr>content = []\<rparr>, None)
   \<and> generate empty_content_env ''PROMPT'' demo_sys
     = (Inl IndexError, \<lparr>world = None, calls = [MessagesCreate (create_request ''PROMPT'')]\<rparr>)"
proof -
  have a: "messages_create failing_service_env (create_request ''PROMPT'') (world demo_sys)
     = (Inl ''rate limited'', None)"
    by (simp add: failing_service_env_def demo_env_def demo_sys_def)
  have b: "messages_create demo_env (create_request ''PROMPT'') (world demo_sys)
     = (Inr \<lparr>content = [\<lparr>block_text = ''BRIEF''\<rparr>]\<rparr>, None)"
    by (simp add: demo_env_def demo_sys_def)
  have c: "messages_create empty_content_env (create_request ''PROMPT'') (world demo_sys)
     = (Inr \<lparr>content = []\<rparr>, None)"
    by (simp add: empty_content_env_def demo_env_def demo_sys_def)
  from a generate_contract [of failing_service_env "''PROMPT''" demo_sys]
  have 1: "generate failing_service_env ''PROMPT'' demo_sys
     = (Inl (LibraryError ''rate limited''),
        demo_sys\<lparr>world := None,
                  calls := calls demo_sys @ [MessagesCreate (create_request ''PROMPT'')]\<rparr>)"
    by blast
  from b generate_contract [of demo_env "''PROMPT''" demo_sys]
  have 2: "generate demo_env ''PROMPT'' demo_sys
     = (Inr (block_text \<lparr>block_text = ''BRIEF''\<rparr>),
        demo_sys\<lparr>world := None,
                  calls := calls demo_sys @ [MessagesCreate (create_request ''PROMPT'')]\<rparr>)"
    by blast
  from c generate_contract [of empty_content_env "''PROMPT''" demo_sys]
  have 3: "generate empty_content_env ''PROMPT'' demo_sys
     = (Inl IndexError,
        demo_sys\<lparr>world := None,
                  calls := calls demo_sys @ [MessagesCreate (create_request ''PROMPT'')]\<rparr>)"
    by blast
  from a b c 1 2 3 show ?thesis by (simp add: demo_sys_def)
qed

text \<open>
  C6 as the spec has it says that the step returns the generated text unless the
  service failed, and that a failure is the service's own error. Here the service did
  not fail: it answered, with an empty list of content blocks. The step returns no
  text, and the error it ends in is not one the service raised.
\<close>

theorem generate_empty_content_counterexample:
  "messages_create empty_content_env (create_request ''PROMPT'') (world demo_sys)
     = (Inr \<lparr>content = []\<rparr>, None)
   \<and> generate empty_content_env ''PROMPT'' demo_sys
     = (Inl IndexError, \<lparr>world = None, calls = [MessagesCreate (create_request ''PROMPT'')]\<rparr>)"
  by (simp add: generate_def extern_def empty_content_env_def demo_env_def demo_sys_def)

end
